theory Spec2Isabelle
  imports Main "HOL-Library.AList"
begin

section \<open>The playground router of agno: values, errors and streams\<close>

text \<open>
  The development follows \<^verbatim>\<open>libs/agno/agno/app/playground/async_router.py\<close>: the
  handlers that \<^verbatim>\<open>get_async_playground_router\<close> registers and the four streamer
  generators above it. Python values that travel as JSON (stored runs, messages, session
  dictionaries) are values of \<open>json\<close>; a \<^verbatim>\<open>dict\<close> is an association list in
  insertion order, read with \<open>map_of\<close>, written with \<open>AList.update\<close> (an existing
  key keeps its place, a new key goes last) and popped with \<open>AList.delete\<close>.
  Floating point numbers do not occur in what the handlers inspect and are left out.
\<close>

datatype json =
    JNull
  | JBool bool
  | JInt int
  | JStr string
  | JList "json list"
  | JDict "(string \<times> json) list"

type_synonym pydict = "(string \<times> json) list"

text \<open>
  Every \<^verbatim>\<open>raise\<close> is a value. \<open>Exception msg\<close> is an exception (an instance of a
  subclass of Python's \<^verbatim>\<open>Exception\<close>) raised by code outside the router, with
  \<open>msg\<close> what \<^verbatim>\<open>str(e)\<close> gives; \<open>HTTPException status detail\<close> is fastapi's.
\<close>

datatype exn =
    IndexError
  | KeyError
  | TypeError
  | AttributeError
  | Exception string
  | HTTPException nat string

text \<open>\<^verbatim>\<open>str(e)\<close>; for the built-in errors the text is the usual one of the interpreter.\<close>

fun str_exn :: "exn \<Rightarrow> string" where
  "str_exn IndexError = ''list index out of range''"
| "str_exn KeyError = ''0''"
| "str_exn TypeError = ''object is not iterable''"
| "str_exn AttributeError = ''object has no attribute''"
| "str_exn (Exception msg) = msg"
| "str_exn (HTTPException status detail) = detail"

text \<open>\<^verbatim>\<open>d.get(k)\<close> and \<^verbatim>\<open>d.get(k, default)\<close>.\<close>

definition dict_get :: "pydict \<Rightarrow> string \<Rightarrow> json" where
  "dict_get d k = (case map_of d k of None \<Rightarrow> JNull | Some v \<Rightarrow> v)"

definition dict_get_default :: "pydict \<Rightarrow> string \<Rightarrow> json \<Rightarrow> json" where
  "dict_get_default d k dflt = (case map_of d k of None \<Rightarrow> dflt | Some v \<Rightarrow> v)"

text \<open>Truth value of a Python object in a condition.\<close>

fun truthy :: "json \<Rightarrow> bool" where
  "truthy JNull = False"
| "truthy (JBool b) = b"
| "truthy (JInt i) = (i \<noteq> 0)"
| "truthy (JStr s) = (s \<noteq> [])"
| "truthy (JList xs) = (xs \<noteq> [])"
| "truthy (JDict d) = (d \<noteq> [])"

text \<open>
  \<^verbatim>\<open>for x in v\<close>: a list gives its elements, a string its characters, a dict its
  keys; anything else is not iterable.
\<close>

fun py_iter :: "json \<Rightarrow> exn + json list" where
  "py_iter (JList xs) = Inr xs"
| "py_iter (JStr s) = Inr (map (\<lambda>ch. JStr [ch]) s)"
| "py_iter (JDict d) = Inr (map (\<lambda>kv. JStr (fst kv)) d)"
| "py_iter JNull = Inl TypeError"
| "py_iter (JBool b) = Inl TypeError"
| "py_iter (JInt i) = Inl TypeError"

text \<open>
  \<^verbatim>\<open>runs[0]\<close>: the first element of a list or string, \<^verbatim>\<open>IndexError\<close> when it is
  empty; a dict decoded from JSON has string keys only, so the key \<^verbatim>\<open>0\<close> is
  missing; other values cannot be subscripted.
\<close>

fun py_first :: "json \<Rightarrow> exn + json" where
  "py_first (JList []) = Inl IndexError"
| "py_first (JList (x # xs)) = Inr x"
| "py_first (JStr []) = Inl IndexError"
| "py_first (JStr (ch # s)) = Inr (JStr [ch])"
| "py_first (JDict d) = Inl KeyError"
| "py_first JNull = Inl TypeError"
| "py_first (JBool b) = Inl TypeError"
| "py_first (JInt i) = Inl TypeError"

text \<open>\<^verbatim>\<open>k in v\<close> for a string \<open>k\<close>: a key of a dict, an element of a list, a substring of a string.\<close>

fun is_substring :: "string \<Rightarrow> string \<Rightarrow> bool" where
  "is_substring k [] = (k = [])"
| "is_substring k (ch # s) = (take (length k) (ch # s) = k \<or> is_substring k s)"

fun py_contains :: "json \<Rightarrow> string \<Rightarrow> exn + bool" where
  "py_contains (JDict d) k = Inr (k \<in> set (map fst d))"
| "py_contains (JList xs) k = Inr (JStr k \<in> set xs)"
| "py_contains (JStr s) k = Inr (is_substring k s)"
| "py_contains JNull k = Inl TypeError"
| "py_contains (JBool b) k = Inl TypeError"
| "py_contains (JInt i) k = Inl TypeError"

text \<open>\<^verbatim>\<open>v.get(k, default)\<close> on any value: only a dict has the method.\<close>

fun py_get :: "json \<Rightarrow> string \<Rightarrow> json \<Rightarrow> exn + json" where
  "py_get (JDict d) k dflt = Inr (dict_get_default d k dflt)"
| "py_get JNull k dflt = Inl AttributeError"
| "py_get (JBool b) k dflt = Inl AttributeError"
| "py_get (JInt i) k dflt = Inl AttributeError"
| "py_get (JStr s) k dflt = Inl AttributeError"
| "py_get (JList xs) k dflt = Inl AttributeError"

section \<open>Events, responses and generators\<close>

text \<open>
  The event classes are imported by the router from \<^verbatim>\<open>agno.run\<close>; the router builds
  the three error events itself and passes every other event through. \<open>Event name payload\<close>
  is any event an entity yields.
\<close>

datatype event =
    Event string json
  | RunResponseErrorEvent string
  | TeamRunResponseErrorEvent string
  | WorkflowErrorEvent string

text \<open>
  Modelled from the spec: \<^verbatim>\<open>RunResponse\<close> is declared outside the sources at hand. The
  spec describes the value a buffered run returns as "one terminal Response aggregating the
  transcript" whose "status indicates failure" when the run failed; the record holds these
  and the identifiers every wire record carries.
\<close>

record run_response =
  response_run_id :: "string option"
  response_session_id :: "string option"
  status :: string
  transcript :: "event list"

text \<open>
  A generator that ends: it yields a value and goes on, stops, or raises. The streams of the
  router are asynchronous generators consumed by one reader; what the reader sees is this
  sequence.
\<close>

datatype 'a gen = Stop | Yield 'a "'a gen" | Throw exn



text \<open>What an entity's run method gives back: it raises, returns a response, or returns a stream.\<close>

datatype run_result =
    RunRaised exn
  | RunResponse run_response
  | RunStream "event gen"

text \<open>
  The serialised forms: \<^verbatim>\<open>chunk.to_json()\<close> of an event, \<^verbatim>\<open>run_response.to_dict()\<close>
  of a response. Both methods live outside the router and are kept as constructors.
\<close>

datatype wire = To_json event

datatype payload =
    To_dict run_response
  | Response_object run_response
  | Stream_object "event gen"
  | Dict pydict

text \<open>
  What a handler gives its caller: a \<^verbatim>\<open>StreamingResponse\<close> over a generator, a returned
  value, a \<^verbatim>\<open>JSONResponse\<close> with a status code and content, or an exception that leaves
  the handler.
\<close>

datatype result =
    StreamingResponse "wire gen"
  | Return payload
  | JSONResponse nat json
  | Raise exn

section \<open>Sessions and their store\<close>

text \<open>
  A stored session (\<^verbatim>\<open>AgentSession\<close>, \<^verbatim>\<open>TeamSession\<close>, \<^verbatim>\<open>WorkflowSession\<close>):
  \<open>entity_id\<close> is the \<^verbatim>\<open>agent_id\<close>, \<^verbatim>\<open>team_id\<close> or \<^verbatim>\<open>workflow_id\<close> of the row.
\<close>

record session =
  session_id :: string
  user_id :: "string option"
  entity_id :: "string option"
  session_data :: "pydict option"
  memory :: "pydict option"
  created_at :: "int option"

type_synonym storage = "session list"

text \<open>
  Modelled from the spec: the storage classes are outside the sources at hand. The spec's
  contract is \<^verbatim>\<open>getAllSessions(userId?, entityId?) -> ordered list of Session summaries\<close>:
  the stored sessions in order, restricted to the user and to the entity when these are given.
\<close>

definition get_all_sessions :: "storage \<Rightarrow> string option \<Rightarrow> string option \<Rightarrow> session list" where
  "get_all_sessions st uid eid =
     filter (\<lambda>s. (uid = None \<or> user_id s = uid) \<and> (eid = None \<or> entity_id s = eid)) st"

text \<open>
  Modelled from the spec: \<^verbatim>\<open>readSession(sessionId, userId?) -> Session | not-found\<close>,
  the session with that identifier (of that user, when one is given), \<open>None\<close> for not-found.
\<close>

definition storage_read :: "storage \<Rightarrow> string \<Rightarrow> string option \<Rightarrow> session option" where
  "storage_read st sid uid =
     find (\<lambda>s. session_id s = sid \<and> (uid = None \<or> user_id s = uid)) st"

text \<open>
  Modelled from the spec: \<^verbatim>\<open>renameSession(sessionId, newName) -> ok | not-found\<close>. The
  display name is the \<^verbatim>\<open>session_name\<close> entry of \<^verbatim>\<open>session_data\<close>, where the
  listing handlers read it; a store without the session is left as it is.
\<close>

definition rename_session :: "storage \<Rightarrow> string \<Rightarrow> string \<Rightarrow> storage" where
  "rename_session st sid new_name =
     map (\<lambda>s. if session_id s = sid
               then s\<lparr>session_data := Some (AList.update ''session_name'' (JStr new_name)
                         (case session_data s of None \<Rightarrow> [] | Some d \<Rightarrow> d))\<rparr>
               else s) st"

text \<open>
  Modelled from the spec: \<^verbatim>\<open>to_dict()\<close> of a stored session, a dictionary of the
  attributes the spec lists for a Session (identifiers, metadata, memory). The dictionary is
  a copy: popping a key from a stored run does not change it.
\<close>

definition opt_str :: "string option \<Rightarrow> json" where
  "opt_str v = (case v of None \<Rightarrow> JNull | Some s \<Rightarrow> JStr s)"

definition opt_dict :: "pydict option \<Rightarrow> json" where
  "opt_dict v = (case v of None \<Rightarrow> JNull | Some d \<Rightarrow> JDict d)"

definition session_to_dict :: "session \<Rightarrow> pydict" where
  "session_to_dict s =
     [(''session_id'', JStr (session_id s)),
      (''user_id'', opt_str (user_id s)),
      (''entity_id'', opt_str (entity_id s)),
      (''memory'', opt_dict (memory s)),
      (''session_data'', opt_dict (session_data s)),
      (''created_at'', (case created_at s of None \<Rightarrow> JNull | Some t \<Rightarrow> JInt t))]"

section \<open>Entities and the registry\<close>

text \<open>
  The router is built over three lists (\<^verbatim>\<open>agents\<close>, \<^verbatim>\<open>workflows\<close>, \<^verbatim>\<open>teams\<close>,
  each possibly \<^verbatim>\<open>None\<close>) of configured objects that every request shares. A handler
  that assigns to an attribute of such an object changes the registry; the handlers are
  therefore functions from the registry to a result and the registry afterwards. The records
  hold the attributes the handlers read or write, and the entity's name as one attribute
  they leave alone. A knowledge base is the list of documents loaded into it.
\<close>

type_synonym document = string

type_synonym knowledge = "document list"

text \<open>
  Modelled from the spec: the \<^verbatim>\<open>Agent\<close> class is outside the sources at hand. Besides
  the attributes the router touches, the record holds what the spec gives a paused run: its
  identifier and "the pending tool-call set", the identifiers of the tool calls that wait
  for a resolution (\<open>paused_runs\<close>). No handler of the router reads it.
\<close>

record agent =
  agent_id :: "string option"
  agent_name :: "string option"
  monitoring :: bool
  knowledge :: "knowledge option"
  storage :: "storage option"
  paused_runs :: "(string \<times> string list) list"

record team =
  team_id :: "string option"
  team_name :: "string option"
  team_monitoring :: bool
  team_storage :: "storage option"

text \<open>
  \<^verbatim>\<open>isinstance(workflow, Workflow)\<close> separates the first generation of workflows from
  \<^verbatim>\<open>WorkflowV2\<close>; \<open>run_return_type\<close> is the attribute \<^verbatim>\<open>_run_return_type\<close> of
  the former.
\<close>

datatype workflow_class = Workflow | WorkflowV2

record workflow =
  workflow_class :: workflow_class
  workflow_id :: "string option"
  workflow_name :: "string option"
  workflow_session_id :: "string option"
  workflow_user_id :: "string option"
  session_name :: "string option"
  run_return_type :: "string option"
  workflow_storage :: "storage option"

record playground =
  agents :: "agent list option"
  workflows :: "workflow list option"
  teams :: "team list option"

text \<open>
  Modelled from the spec: \<^verbatim>\<open>get_agent_by_id\<close>, \<^verbatim>\<open>get_team_by_id\<close> and
  \<^verbatim>\<open>get_workflow_by_id\<close> come from \<^verbatim>\<open>agno.app.playground.operator\<close>, outside the
  sources at hand. The spec: the dispatcher "resolves an entity identifier against the
  configured entity registry", a fixed set, and reports not-found otherwise. The first
  entity of the list with the identifier is the one resolved.
\<close>

definition get_agent_by_id :: "string \<Rightarrow> agent list option \<Rightarrow> agent option" where
  "get_agent_by_id aid ags =
     (case ags of None \<Rightarrow> None | Some xs \<Rightarrow> find (\<lambda>a. agent_id a = Some aid) xs)"

definition get_team_by_id :: "string \<Rightarrow> team list option \<Rightarrow> team option" where
  "get_team_by_id tid ts =
     (case ts of None \<Rightarrow> None | Some xs \<Rightarrow> find (\<lambda>t. team_id t = Some tid) xs)"

definition get_workflow_by_id :: "string \<Rightarrow> workflow list option \<Rightarrow> workflow option" where
  "get_workflow_by_id wid ws =
     (case ws of None \<Rightarrow> None | Some xs \<Rightarrow> find (\<lambda>w. workflow_id w = Some wid) xs)"

text \<open>
  An assignment to an attribute of the resolved object: the object at the place where the
  lookup found it is replaced by its new state.
\<close>

fun replace_first :: "('a \<Rightarrow> bool) \<Rightarrow> 'a \<Rightarrow> 'a list \<Rightarrow> 'a list" where
  "replace_first P y [] = []"
| "replace_first P y (x # xs) = (if P x then y # xs else x # replace_first P y xs)"

definition put_agent :: "string \<Rightarrow> agent \<Rightarrow> playground \<Rightarrow> playground" where
  "put_agent aid a pg =
     pg\<lparr>agents := map_option (replace_first (\<lambda>x. agent_id x = Some aid) a) (agents pg)\<rparr>"

definition put_team :: "string \<Rightarrow> team \<Rightarrow> playground \<Rightarrow> playground" where
  "put_team tid t pg =
     pg\<lparr>teams := map_option (replace_first (\<lambda>x. team_id x = Some tid) t) (teams pg)\<rparr>"

definition put_workflow :: "string \<Rightarrow> workflow \<Rightarrow> playground \<Rightarrow> playground" where
  "put_workflow wid w pg =
     pg\<lparr>workflows := map_option (replace_first (\<lambda>x. workflow_id x = Some wid) w) (workflows pg)\<rparr>"

section \<open>Reading a session for display\<close>

text \<open>
  The test "this is how we know it is a RunResponse or RunPaused" on the first stored run:
  \<^verbatim>\<open>"content" in first_run or first_run.get("is_paused", False) or
  first_run.get("event") == "RunPaused"\<close>, evaluated left to right.
\<close>

definition is_run_response :: "json \<Rightarrow> exn + bool" where
  "is_run_response first_run =
     (case py_contains first_run ''content'' of
        Inl e \<Rightarrow> Inl e
      | Inr has_content \<Rightarrow>
          if has_content then Inr True
          else (case py_get first_run ''is_paused'' (JBool False) of
                  Inl e \<Rightarrow> Inl e
                | Inr paused \<Rightarrow>
                    if truthy paused then Inr True
                    else (case py_get first_run ''event'' JNull of
                            Inl e \<Rightarrow> Inl e
                          | Inr ev \<Rightarrow> Inr (ev = JStr ''RunPaused''))))"

text \<open>
  The inner loop: the first message with \<^verbatim>\<open>msg.get("role") == "user"\<close> and
  \<^verbatim>\<open>msg.get("from_history", False) is False\<close>, \<^verbatim>\<open>None\<close> when there is none.
\<close>

fun first_user_message :: "json list \<Rightarrow> exn + json" where
  "first_user_message [] = Inr JNull"
| "first_user_message (msg # msgs) =
     (case py_get msg ''role'' JNull of
        Inl e \<Rightarrow> Inl e
      | Inr role \<Rightarrow>
          if role = JStr ''user'' then
            (case py_get msg ''from_history'' (JBool False) of
               Inl e \<Rightarrow> Inl e
             | Inr h \<Rightarrow> if h = JBool False then Inr msg else first_user_message msgs)
          else first_user_message msgs)"

text \<open>
  The loop of \<^verbatim>\<open>get_agent_session\<close> over the stored runs, giving the entries appended
  to \<^verbatim>\<open>agent_session_dict["runs"]\<close>. The first method call on \<^verbatim>\<open>run\<close> is
  \<^verbatim>\<open>run.get\<close>, so a run that is not a dict raises \<^verbatim>\<open>AttributeError\<close>;
  \<^verbatim>\<open>run.pop("memory", None)\<close> comes before the run is stored in the entry.
\<close>

fun agent_runs_loop :: "json list \<Rightarrow> exn + json list" where
  "agent_runs_loop [] = Inr []"
| "agent_runs_loop (run # runs) =
     (case run of
        JDict r \<Rightarrow>
          (case py_iter (dict_get_default r ''messages'' (JList [])) of
             Inl e \<Rightarrow> Inl e
           | Inr msgs \<Rightarrow>
               (case first_user_message msgs of
                  Inl e \<Rightarrow> Inl e
                | Inr first \<Rightarrow>
                    (case agent_runs_loop runs of
                       Inl e \<Rightarrow> Inl e
                     | Inr entries \<Rightarrow>
                         Inr (JDict [(''message'', first),
                                     (''response'', JDict (AList.delete ''memory'' r))] # entries))))
      | _ \<Rightarrow> Inl AttributeError)"

definition get_agent_session :: "playground \<Rightarrow> string \<Rightarrow> string \<Rightarrow> string option \<Rightarrow> result" where
  "get_agent_session pg aid sid uid =
     (case get_agent_by_id aid (agents pg) of
        None \<Rightarrow> Raise (HTTPException 404 ''Agent not found'')
      | Some agent \<Rightarrow>
          (case storage agent of
             None \<Rightarrow> JSONResponse 404 (JStr ''Agent does not have storage enabled.'')
           | Some st \<Rightarrow>
               (case storage_read st sid uid of
                  None \<Rightarrow> JSONResponse 404 (JStr ''Session not found.'')
                | Some agent_session \<Rightarrow>
                    (case memory agent_session of
                       None \<Rightarrow> Return (Dict (session_to_dict agent_session))
                     | Some mem \<Rightarrow>
                         if dict_get mem ''runs'' = JNull
                         then Return (Dict (session_to_dict agent_session))
                         else
                           (case py_first (dict_get mem ''runs'') of
                              Inl e \<Rightarrow> Raise e
                            | Inr first_run \<Rightarrow>
                                (case is_run_response first_run of
                                   Inl e \<Rightarrow> Raise e
                                 | Inr shown \<Rightarrow>
                                     if shown then
                                       (case py_iter (dict_get mem ''runs'') of
                                          Inl e \<Rightarrow> Raise e
                                        | Inr runs \<Rightarrow>
                                            (case agent_runs_loop runs of
                                               Inl e \<Rightarrow> Raise e
                                             | Inr entries \<Rightarrow>
                                                 Return (Dict (AList.update ''runs'' (JList entries)
                                                           (session_to_dict agent_session)))))
                                     else Return (Dict (session_to_dict agent_session))))))))"

text \<open>
  The loop of \<^verbatim>\<open>get_team_session\<close>. A run is skipped (\<^verbatim>\<open>continue\<close>) when
  \<^verbatim>\<open>run.get("team_session_id") is not None and run.get("team_session_id") ==
  session_id\<close>. The function gives the entries appended to
  \<^verbatim>\<open>team_session_dict["runs"]\<close>; \<^verbatim>\<open>team_session_dict.pop("memory", None)\<close> is
  inside the loop after the skip, so it happens exactly when an entry is appended.
\<close>

fun team_runs_loop :: "string \<Rightarrow> json list \<Rightarrow> exn + json list" where
  "team_runs_loop sid [] = Inr []"
| "team_runs_loop sid (run # runs) =
     (case run of
        JDict r \<Rightarrow>
          if dict_get r ''team_session_id'' \<noteq> JNull \<and> dict_get r ''team_session_id'' = JStr sid
          then team_runs_loop sid runs
          else
            (case py_iter (dict_get_default r ''messages'' (JList [])) of
               Inl e \<Rightarrow> Inl e
             | Inr msgs \<Rightarrow>
                 (case first_user_message msgs of
                    Inl e \<Rightarrow> Inl e
                  | Inr first \<Rightarrow>
                      (case team_runs_loop sid runs of
                         Inl e \<Rightarrow> Inl e
                       | Inr entries \<Rightarrow>
                           Inr (JDict [(''message'', first), (''response'', JDict r)] # entries))))
      | _ \<Rightarrow> Inl AttributeError)"

definition get_team_session :: "playground \<Rightarrow> string \<Rightarrow> string \<Rightarrow> string option \<Rightarrow> result" where
  "get_team_session pg tid sid uid =
     (case get_team_by_id tid (teams pg) of
        None \<Rightarrow> Raise (HTTPException 404 ''Team not found'')
      | Some team \<Rightarrow>
          (case team_storage team of
             None \<Rightarrow> Raise (HTTPException 404 ''Team does not have storage enabled'')
           | Some st \<Rightarrow>
               (case storage_read st sid uid of
                  None \<Rightarrow> Raise (HTTPException 404 ''Session not found'')
                | Some team_session \<Rightarrow>
                    (case memory team_session of
                       None \<Rightarrow> Return (Dict (session_to_dict team_session))
                     | Some mem \<Rightarrow>
                         if dict_get mem ''runs'' = JNull
                         then Return (Dict (session_to_dict team_session))
                         else
                           (case py_first (dict_get mem ''runs'') of
                              Inl e \<Rightarrow> Raise e
                            | Inr first_run \<Rightarrow>
                                (case is_run_response first_run of
                                   Inl e \<Rightarrow> Raise e
                                 | Inr shown \<Rightarrow>
                                     if shown then
                                       (case py_iter (dict_get mem ''runs'') of
                                          Inl e \<Rightarrow> Raise e
                                        | Inr runs \<Rightarrow>
                                            (case team_runs_loop sid runs of
                                               Inl e \<Rightarrow> Raise e
                                             | Inr entries \<Rightarrow>
                                                 Return (Dict
                                                   (if entries = []
                                                    then AList.update ''runs'' (JList []) (session_to_dict team_session)
                                                    else AList.update ''runs'' (JList entries)
                                                           (AList.delete ''memory'' (session_to_dict team_session))))))
                                     else Return (Dict (session_to_dict team_session))))))))"

section \<open>Collaborators outside the router\<close>

text \<open>
  An uploaded file: its declared content type, its name, and what \<^verbatim>\<open>await file.read()\<close>
  gives. Media objects carry their content.
\<close>

record upload_file =
  content_type :: "string option"
  filename :: "string option"
  contents :: string

datatype media = Image string | Audio string | Video string | FileMedia string

datatype reader = PDFReader | CSVReader | DocxReader | TextReader | JSONReader

text \<open>The keyword arguments of \<^verbatim>\<open>Agent.arun\<close> and \<^verbatim>\<open>Team.arun\<close> as the router passes them.\<close>

record run_args =
  message :: string
  run_session_id :: "string option"
  run_user_id :: "string option"
  images :: "media list option"
  audio :: "media list option"
  videos :: "media list option"
  files :: "media list option"
  stream :: "bool option"
  stream_intermediate_steps :: "bool option"

text \<open>
  Modelled from the spec: \<^verbatim>\<open>ToolExecution\<close> is declared outside the sources at hand; the
  spec gives a resolution as \<^verbatim>\<open>{ tool_call_id, result }\<close>.
\<close>

record tool_execution =
  tool_call_id :: "string option"
  tool_result :: json

text \<open>The keyword arguments of \<^verbatim>\<open>Agent.acontinue_run\<close>.\<close>

record continue_args =
  continue_run_id :: string
  updated_tools :: "tool_execution list option"
  continue_session_id :: "string option"
  continue_user_id :: "string option"
  continue_stream :: "bool option"
  continue_stream_intermediate_steps :: "bool option"

text \<open>
  \<^verbatim>\<open>WorkflowRunRequest\<close>, the body of a workflow run request, and the keyword arguments
  of \<^verbatim>\<open>WorkflowV2.arun\<close> (\<^verbatim>\<open>**body.input\<close> and the rest).
\<close>

record workflow_run_request =
  body_input :: pydict
  body_user_id :: "string option"
  body_session_id :: "string option"
  body_stream :: bool

record workflow_args =
  arun_input :: pydict
  arun_user_id :: "string option"
  arun_session_id :: string
  arun_stream :: "bool option"
  arun_stream_intermediate_steps :: "bool option"

text \<open>
  Everything the handlers call that is not part of the router is a parameter: the run
  methods of the entities (given the entity as it is when the method is called), the value
  \<^verbatim>\<open>str(uuid4())\<close> gives in this request, \<^verbatim>\<open>json.loads\<close> (\<open>None\<close> for
  \<^verbatim>\<open>JSONDecodeError\<close>), \<^verbatim>\<open>ToolExecution.from_dict\<close>, the media helpers of
  \<^verbatim>\<open>agno.app.playground.utils\<close>, the document readers and the knowledge base's
  \<^verbatim>\<open>load_documents\<close>. What a run method does to its own entity is outside the router
  and not part of the model. Exceptions that are not instances of \<^verbatim>\<open>Exception\<close>
  (cancellation, interpreter exit) are not modelled.
\<close>

record collab =
  uuid4 :: string
  arun :: "agent \<Rightarrow> run_args \<Rightarrow> run_result"
  acontinue_run :: "agent \<Rightarrow> continue_args \<Rightarrow> run_result"
  team_arun :: "team \<Rightarrow> run_args \<Rightarrow> run_result"
  workflow_run :: "workflow \<Rightarrow> pydict \<Rightarrow> run_result"
  workflow_arun :: "workflow \<Rightarrow> workflow_args \<Rightarrow> run_result"
  json_loads :: "string \<Rightarrow> json option"
  from_dict :: "json \<Rightarrow> exn + tool_execution"
  process_image :: "upload_file \<Rightarrow> exn + media"
  process_audio :: "upload_file \<Rightarrow> exn + media"
  process_video :: "upload_file \<Rightarrow> exn + media"
  process_document :: "upload_file \<Rightarrow> exn + media option"
  read_documents :: "reader \<Rightarrow> upload_file \<Rightarrow> exn + document list"
  load_documents :: "knowledge \<Rightarrow> document list \<Rightarrow> exn + knowledge"

section \<open>The streamers\<close>

text \<open>
  The body shared by the four streamers:
  \<^verbatim>\<open>try: async for chunk in run_response: yield chunk.to_json()
  except Exception as e: yield <error event>(str(e)).to_json(); return\<close>.
  \<open>err\<close> builds the error event of the streamer.
\<close>

fun stream_to_json :: "(string \<Rightarrow> event) \<Rightarrow> event gen \<Rightarrow> wire gen" where
  "stream_to_json err Stop = Stop"
| "stream_to_json err (Yield chunk g) = Yield (To_json chunk) (stream_to_json err g)"
| "stream_to_json err (Throw e) = Yield (To_json (err (str_exn e))) Stop"

text \<open>
  The call of the run method is inside the same \<^verbatim>\<open>try\<close>. A response where a stream
  is expected makes \<^verbatim>\<open>async for\<close> raise \<^verbatim>\<open>TypeError\<close>, which is caught as well.
\<close>

definition streamer :: "(string \<Rightarrow> event) \<Rightarrow> run_result \<Rightarrow> wire gen" where
  "streamer err run_response =
     (case run_response of
        RunRaised e \<Rightarrow> Yield (To_json (err (str_exn e))) Stop
      | RunStream g \<Rightarrow> stream_to_json err g
      | RunResponse r \<Rightarrow> Yield (To_json (err (str_exn TypeError))) Stop)"









text \<open>\<^verbatim>\<open>x or str(uuid4())\<close> for an optional string: \<^verbatim>\<open>None\<close> and \<^verbatim>\<open>""\<close> are false.\<close>

definition or_uuid4 :: "collab \<Rightarrow> string option \<Rightarrow> string" where
  "or_uuid4 c x = (case x of None \<Rightarrow> uuid4 c | Some s \<Rightarrow> if s = [] then uuid4 c else s)"

text \<open>
  \<^verbatim>\<open>workflow.arun(**body.input, user_id=..., session_id=..., ...)\<close>: a key of
  \<^verbatim>\<open>body.input\<close> that is also passed by name makes the call itself raise
  \<^verbatim>\<open>TypeError\<close>; otherwise the method runs.
\<close>

definition call_workflow_arun ::
  "collab \<Rightarrow> workflow \<Rightarrow> workflow_args \<Rightarrow> string list \<Rightarrow> run_result" where
  "call_workflow_arun c workflow args keywords =
     (if \<exists>k \<in> set keywords. k \<in> set (map fst (arun_input args))
      then RunRaised TypeError
      else workflow_arun c workflow args)"

definition workflow_response_streamer :: "collab \<Rightarrow> workflow \<Rightarrow> workflow_run_request \<Rightarrow> wire gen" where
  "workflow_response_streamer c workflow body =
     streamer WorkflowErrorEvent
       (call_workflow_arun c workflow
          \<lparr>arun_input = body_input body, arun_user_id = body_user_id body,
           arun_session_id = or_uuid4 c (body_session_id body), arun_stream = Some True,
           arun_stream_intermediate_steps = Some True\<rparr>
          [''user_id'', ''session_id'', ''stream'', ''stream_intermediate_steps''])"

section \<open>Agent runs\<close>












section \<open>Team runs\<close>



section \<open>Workflow runs\<close>

text \<open>
  Modelled from the spec: \<^verbatim>\<open>Workflow.deep_copy(update=...)\<close> is outside the sources at
  hand. As the handler's own comment says ("Create a new instance of this workflow"), it
  gives a new instance with the attributes of the one copied, those named in
  \<^verbatim>\<open>update\<close> replaced; the handler's \<^verbatim>\<open>update\<close> names \<^verbatim>\<open>workflow_id\<close> and
  \<^verbatim>\<open>session_id\<close>. Assignments to the copy are no assignments to the registered object.
\<close>

definition deep_copy :: "workflow \<Rightarrow> string \<Rightarrow> string option \<Rightarrow> workflow" where
  "deep_copy w new_workflow_id new_session_id =
     w\<lparr>workflow_id := Some new_workflow_id, workflow_session_id := new_session_id\<rparr>"

text \<open>
  The generator expression \<^verbatim>\<open>(result.to_json() for result in ...)\<close> handed to
  \<^verbatim>\<open>StreamingResponse\<close>: it is consumed after the handler has returned, outside the
  handler's \<^verbatim>\<open>try\<close>, so an exception of the underlying stream is the stream's own.
\<close>

fun genexpr_to_json :: "event gen \<Rightarrow> wire gen" where
  "genexpr_to_json Stop = Stop"
| "genexpr_to_json (Yield r g) = Yield (To_json r) (genexpr_to_json g)"
| "genexpr_to_json (Throw e) = Throw e"

text \<open>
  \<^verbatim>\<open>create_workflow_run(workflow_id, body)\<close>. For a \<^verbatim>\<open>Workflow\<close> the run happens on
  the copy and the delivery follows \<^verbatim>\<open>_run_return_type\<close>; the call of \<^verbatim>\<open>run\<close>
  and the construction of the generator expression (which takes \<^verbatim>\<open>iter\<close> of the
  result at once) are inside \<^verbatim>\<open>try\<close>, and an exception there is raised again as
  \<^verbatim>\<open>HTTPException(500)\<close>. For a \<^verbatim>\<open>WorkflowV2\<close> the delivery follows
  \<^verbatim>\<open>body.stream\<close>. A returned value is the object itself, not its \<^verbatim>\<open>to_dict\<close>.
\<close>

definition returned_or_500 :: "run_result \<Rightarrow> result" where
  "returned_or_500 run_response =
     (case run_response of
        RunRaised e \<Rightarrow> Raise (HTTPException 500 (''Error running workflow: '' @ str_exn e))
      | RunResponse r \<Rightarrow> Return (Response_object r)
      | RunStream g \<Rightarrow> Return (Stream_object g))"

definition streamed_or_500 :: "run_result \<Rightarrow> result" where
  "streamed_or_500 run_response =
     (case run_response of
        RunRaised e \<Rightarrow> Raise (HTTPException 500 (''Error running workflow: '' @ str_exn e))
      | RunResponse r \<Rightarrow>
          Raise (HTTPException 500 (''Error running workflow: '' @ str_exn TypeError))
      | RunStream g \<Rightarrow> StreamingResponse (genexpr_to_json g))"

definition create_workflow_run ::
  "collab \<Rightarrow> playground \<Rightarrow> string \<Rightarrow> workflow_run_request \<Rightarrow> result \<times> playground" where
  "create_workflow_run c pg wid body =
     (case get_workflow_by_id wid (workflows pg) of
        None \<Rightarrow> (Raise (HTTPException 404 ''Workflow not found''), pg)
      | Some workflow \<Rightarrow>
          (if workflow_class workflow = Workflow then
             (if run_return_type
                   ((deep_copy workflow wid (body_session_id body))
                      \<lparr>workflow_user_id := body_user_id body, session_name := None\<rparr>)
                 = Some ''RunResponse''
              then
                returned_or_500
                  (workflow_run c
                     ((deep_copy workflow wid (body_session_id body))
                        \<lparr>workflow_user_id := body_user_id body, session_name := None\<rparr>)
                     (body_input body))
              else
                streamed_or_500
                  (workflow_run c
                     ((deep_copy workflow wid (body_session_id body))
                        \<lparr>workflow_user_id := body_user_id body, session_name := None\<rparr>)
                     (body_input body)),
              pg)
           else
             (if body_stream body then
                StreamingResponse (workflow_response_streamer c workflow body)
              else
                returned_or_500
                  (call_workflow_arun c workflow
                     \<lparr>arun_input = body_input body, arun_user_id = body_user_id body,
                      arun_session_id = or_uuid4 c (body_session_id body),
                      arun_stream = None, arun_stream_intermediate_steps = None\<rparr>
                     [''session_id'', ''user_id'']),
              pg)))"

section \<open>Renaming a session\<close>

text \<open>An f-string field \<^verbatim>\<open>{x}\<close> for an optional string.\<close>

definition fstr :: "string option \<Rightarrow> string" where
  "fstr x = (case x of None \<Rightarrow> ''None'' | Some s \<Rightarrow> s)"

text \<open>
  Modelled from the spec: \<^verbatim>\<open>Agent.rename_session(name, session_id=...)\<close>,
  \<^verbatim>\<open>Team.rename_session(name, session_id=...)\<close> and \<^verbatim>\<open>Workflow.rename_session(name)\<close>
  are outside the sources at hand; each is the store's \<^verbatim>\<open>renameSession\<close> on the
  entity's own store, the workflow's for the session its \<^verbatim>\<open>session_id\<close> attribute
  names. An entity without a store has nothing to rename.
\<close>

definition agent_rename_session :: "agent \<Rightarrow> string \<Rightarrow> string \<Rightarrow> agent" where
  "agent_rename_session a new_name sid =
     a\<lparr>storage := map_option (\<lambda>st. rename_session st sid new_name) (storage a)\<rparr>"

definition team_rename_session :: "team \<Rightarrow> string \<Rightarrow> string \<Rightarrow> team" where
  "team_rename_session t new_name sid =
     t\<lparr>team_storage := map_option (\<lambda>st. rename_session st sid new_name) (team_storage t)\<rparr>"

definition workflow_rename_session :: "workflow \<Rightarrow> string \<Rightarrow> workflow" where
  "workflow_rename_session w new_name =
     (case workflow_session_id w of
        None \<Rightarrow> w
      | Some sid \<Rightarrow>
          w\<lparr>workflow_storage :=
               map_option (\<lambda>st. rename_session st sid new_name) (workflow_storage w)\<rparr>)"

text \<open>
  \<^verbatim>\<open>rename_agent_session(agent_id, session_id, body)\<close> with \<^verbatim>\<open>body.name\<close> and
  \<^verbatim>\<open>body.user_id\<close>: the sessions of the user are listed (for no entity in particular)
  and the first with the identifier is renamed; without one the answer is 404.
\<close>

definition rename_agent_session ::
  "playground \<Rightarrow> string \<Rightarrow> string \<Rightarrow> string \<Rightarrow> string option \<Rightarrow> result \<times> playground" where
  "rename_agent_session pg aid sid new_name body_uid =
     (case get_agent_by_id aid (agents pg) of
        None \<Rightarrow> (JSONResponse 404 (JStr (''couldn't find agent with '' @ aid)), pg)
      | Some agent \<Rightarrow>
          (case storage agent of
             None \<Rightarrow> (JSONResponse 404 (JStr ''Agent does not have storage enabled.''), pg)
           | Some st \<Rightarrow>
               (case find (\<lambda>s. session_id s = sid) (get_all_sessions st body_uid None) of
                  Some session \<Rightarrow>
                    (JSONResponse 200
                       (JDict [(''message'',
                                JStr (''successfully renamed session '' @ session_id session))]),
                     put_agent aid (agent_rename_session agent new_name sid) pg)
                | None \<Rightarrow> (JSONResponse 404 (JStr ''Session not found.''), pg))))"

text \<open>
  \<^verbatim>\<open>rename_team_session(team_id, session_id, body)\<close>: as for an agent, with the listing
  restricted to the team and the rejections raised.
\<close>

definition rename_team_session ::
  "playground \<Rightarrow> string \<Rightarrow> string \<Rightarrow> string \<Rightarrow> string option \<Rightarrow> result \<times> playground" where
  "rename_team_session pg tid sid new_name body_uid =
     (case get_team_by_id tid (teams pg) of
        None \<Rightarrow> (Raise (HTTPException 404 ''Team not found''), pg)
      | Some team \<Rightarrow>
          (case team_storage team of
             None \<Rightarrow> (Raise (HTTPException 404 ''Team does not have storage enabled''), pg)
           | Some st \<Rightarrow>
               (case find (\<lambda>s. session_id s = sid) (get_all_sessions st body_uid (Some tid)) of
                  Some session \<Rightarrow>
                    (JSONResponse 200
                       (JDict [(''message'',
                                JStr (''successfully renamed team session '' @ new_name))]),
                     put_team tid (team_rename_session team new_name sid) pg)
                | None \<Rightarrow> (Raise (HTTPException 404 ''Session not found''), pg))))"

text \<open>
  \<^verbatim>\<open>rename_workflow_session(workflow_id, session_id, body)\<close>: the handler assigns
  \<^verbatim>\<open>workflow.session_id\<close> on the registered workflow, calls
  \<^verbatim>\<open>workflow.rename_session(body.name)\<close> and answers with the success message; it
  lists no sessions.
\<close>

definition rename_workflow_session ::
  "playground \<Rightarrow> string \<Rightarrow> string \<Rightarrow> string \<Rightarrow> result \<times> playground" where
  "rename_workflow_session pg wid sid new_name =
     (case get_workflow_by_id wid (workflows pg) of
        None \<Rightarrow> (Raise (HTTPException 404 ''Workflow not found''), pg)
      | Some workflow \<Rightarrow>
          (JSONResponse 200
             (JDict [(''message'',
                      JStr (''successfully renamed workflow ''
                            @ fstr (workflow_name
                                (workflow_rename_session
                                   (workflow\<lparr>workflow_session_id := Some sid\<rparr>) new_name))))]),
           put_workflow wid
             (workflow_rename_session (workflow\<lparr>workflow_session_id := Some sid\<rparr>) new_name) pg))"

section \<open>What a run produced\<close>



text \<open>The \<^verbatim>\<open>"response"\<close> of an entry of a displayed runs list, and the tag of a stored run.\<close>

definition entry_response :: "json \<Rightarrow> json" where
  "entry_response e = (case e of JDict d \<Rightarrow> dict_get d ''response'' | _ \<Rightarrow> JNull)"

definition run_team_session_id :: "json \<Rightarrow> json" where
  "run_team_session_id run = (case run of JDict r \<Rightarrow> dict_get r ''team_session_id'' | _ \<Rightarrow> JNull)"

section \<open>An example registry and example collaborators\<close>

text \<open>
  One agent, one team, a workflow of each generation. The agent has a paused run
  \<open>run-1\<close> with the pending tool call \<open>t1\<close> and a stored session \<open>s0\<close> whose
  memory holds an empty list of runs. The team's session \<open>s1\<close> holds three runs: one
  tagged with the session's own identifier, one tagged with another, one without a tag.
\<close>

definition empty_runs_session :: session where
  "empty_runs_session =
     \<lparr>session_id = ''s0'', user_id = None, entity_id = None, session_data = None,
      memory = Some [(''runs'', JList [])], created_at = None\<rparr>"

definition example_team_session :: session where
  "example_team_session =
     \<lparr>session_id = ''s1'', user_id = None, entity_id = Some ''team-1'', session_data = None,
      memory = Some [(''runs'', JList
        [JDict [(''content'', JStr ''a''), (''team_session_id'', JStr ''s1'')],
         JDict [(''content'', JStr ''b''), (''team_session_id'', JStr ''s2'')],
         JDict [(''content'', JStr ''c'')]])],
      created_at = None\<rparr>"

definition example_agent :: agent where
  "example_agent =
     \<lparr>agent_id = Some ''agent-1'', agent_name = Some ''writer-agent'', monitoring = True,
      knowledge = None, storage = Some [empty_runs_session],
      paused_runs = [(''run-1'', [''t1''])]\<rparr>"

definition example_team :: team where
  "example_team =
     \<lparr>team_id = Some ''team-1'', team_name = Some ''editors'', team_monitoring = False,
      team_storage = Some [example_team_session, empty_runs_session]\<rparr>"

definition example_workflow :: workflow where
  "example_workflow =
     \<lparr>workflow_class = Workflow, workflow_id = Some ''wf-1'', workflow_name = Some ''pipeline'',
      workflow_session_id = Some ''w0'', workflow_user_id = None, session_name = Some ''old'',
      run_return_type = Some ''RunResponse'', workflow_storage = Some []\<rparr>"

definition example_workflow_v2 :: workflow where
  "example_workflow_v2 =
     \<lparr>workflow_class = WorkflowV2, workflow_id = Some ''wf-2'', workflow_name = Some ''steps'',
      workflow_session_id = None, workflow_user_id = None, session_name = None,
      run_return_type = None, workflow_storage = None\<rparr>"

definition example_playground :: playground where
  "example_playground =
     \<lparr>agents = Some [example_agent], workflows = Some [example_workflow, example_workflow_v2],
      teams = Some [example_team]\<rparr>"

text \<open>
  Entities that answer every run with the same two events, as a stream when asked to stream
  and as a response holding them otherwise; the response names the session it was run for.
\<close>

definition example_events :: "event list" where
  "example_events = [Event ''RunResponseContent'' (JStr ''hello''), Event ''RunCompleted'' JNull]"

definition example_stream :: "event gen" where
  "example_stream =
     Yield (Event ''RunResponseContent'' (JStr ''hello'')) (Yield (Event ''RunCompleted'' JNull) Stop)"

definition example_response :: "string option \<Rightarrow> run_response" where
  "example_response sid =
     \<lparr>response_run_id = Some ''run-1'', response_session_id = sid, status = ''completed'',
      transcript = example_events\<rparr>"

text \<open>
  An agent that continues a paused run with whatever resolutions it is handed and reports
  the tool-call identifiers it was given.
\<close>

definition example_continue_response :: "continue_args \<Rightarrow> run_response" where
  "example_continue_response args =
     \<lparr>response_run_id = Some (continue_run_id args),
      response_session_id = continue_session_id args, status = ''completed'',
      transcript =
        [Event ''RunContinued''
           (JList (map (\<lambda>t. opt_str (tool_call_id t))
                     (case updated_tools args of None \<Rightarrow> [] | Some ts \<Rightarrow> ts)))]\<rparr>"

definition example_from_dict :: "json \<Rightarrow> exn + tool_execution" where
  "example_from_dict tool =
     (case tool of
        JDict d \<Rightarrow>
          Inr \<lparr>tool_call_id = (case dict_get d ''tool_call_id'' of JStr s \<Rightarrow> Some s | _ \<Rightarrow> None),
               tool_result = dict_get d ''result''\<rparr>
      | _ \<Rightarrow> Inl AttributeError)"

text \<open>\<^verbatim>\<open>json.loads\<close> on the three texts the examples send; it is not used elsewhere.\<close>

definition example_json_loads :: "string \<Rightarrow> json option" where
  "example_json_loads s =
     (if s = ''[]'' then Some (JList [])
      else if s = ''1'' then Some (JInt 1)
      else if s = ''[{\"tool_call_id\": \"t9\", \"result\": \"ok\"}]''
        then Some (JList [JDict [(''tool_call_id'', JStr ''t9''), (''result'', JStr ''ok'')]])
      else None)"

definition example_collab :: collab where
  "example_collab =
     \<lparr>uuid4 = ''3f2b8c1e-0000-4000-8000-000000000001'',
      arun = (\<lambda>a args. if stream args = Some True then RunStream example_stream
                         else RunResponse (example_response (run_session_id args))),
      acontinue_run = (\<lambda>a args. if continue_stream args = Some True then RunStream example_stream
                         else RunResponse (example_continue_response args)),
      team_arun = (\<lambda>t args. if stream args = Some True then RunStream example_stream
                         else RunResponse (example_response (run_session_id args))),
      workflow_run = (\<lambda>w inp. RunResponse (example_response (workflow_session_id w))),
      workflow_arun = (\<lambda>w args. if arun_stream args = Some True then RunStream example_stream
                         else RunResponse (example_response (Some (arun_session_id args)))),
      json_loads = example_json_loads,
      from_dict = example_from_dict,
      process_image = (\<lambda>f. Inr (Image (contents f))),
      process_audio = (\<lambda>f. Inr (Audio (contents f))),
      process_video = (\<lambda>f. Inr (Video (contents f))),
      process_document = (\<lambda>f. Inr (Some (FileMedia (contents f)))),
      read_documents = (\<lambda>rd f. Inr [contents f]),
      load_documents = (\<lambda>kb docs. Inr (kb @ docs))\<rparr>"

text \<open>Entities whose every run raises, and an agent whose stream fails after one event.\<close>

definition failing_collab :: collab where
  "failing_collab =
     example_collab
       \<lparr>arun := (\<lambda>a args. RunRaised (Exception ''boom'')),
        acontinue_run := (\<lambda>a args. RunRaised (Exception ''boom'')),
        team_arun := (\<lambda>t args. RunRaised (Exception ''boom'')),
        workflow_run := (\<lambda>w inp. RunRaised (Exception ''boom'')),
        workflow_arun := (\<lambda>w args. RunRaised (Exception ''boom''))\<rparr>"

definition breaking_collab :: collab where
  "breaking_collab =
     example_collab
       \<lparr>arun := (\<lambda>a args. RunStream
                   (Yield (Event ''RunResponseContent'' (JStr ''hel'')) (Throw (Exception ''boom''))))\<rparr>"

section \<open>Evaluation of the examples\<close>

lemmas example_defs =
  example_playground_def example_agent_def example_team_def example_workflow_def
  example_workflow_v2_def empty_runs_session_def example_team_session_def
  example_collab_def failing_collab_def breaking_collab_def example_stream_def
  example_response_def example_events_def example_json_loads_def example_from_dict_def
  example_continue_response_def


section \<open>Streams never break where a streamer is in between\<close>















section \<open>Execution errors, by mode\<close>




section \<open>Displaying a team session\<close>

lemma run_team_session_id_JDict [simp]:
  "run_team_session_id (JDict r) = dict_get r ''team_session_id''"
  by (simp add: run_team_session_id_def)

lemma entry_response_entry [simp]:
  "entry_response (JDict [(''message'', m), (''response'', r)]) = r"
  by (simp add: entry_response_def dict_get_def)

lemma team_runs_loop_responses:
  "team_runs_loop sid runs = Inr entries \<Longrightarrow>
   map entry_response entries = filter (\<lambda>run. run_team_session_id run \<noteq> JStr sid) runs"
proof (induction runs arbitrary: entries)
  case Nil
  then show ?case by simp
next
  case (Cons run runs)
  from Cons.prems obtain r where run: "run = JDict r"
    by (cases run) simp_all
  show ?case
  proof (cases "dict_get r ''team_session_id'' = JStr sid")
    case True
    with Cons.prems run have "team_runs_loop sid runs = Inr entries" by simp
    from Cons.IH [OF this] True run show ?thesis by simp
  next
    case False
    with Cons.prems run obtain first rest where
      rest: "team_runs_loop sid runs = Inr rest"
      and entries: "entries = JDict [(''message'', first), (''response'', JDict r)] # rest"
      by (auto split: sum.splits)
    from Cons.IH [OF rest] False run entries show ?thesis by simp
  qed
qed

text \<open>
  Claim C4, as the code has it. When the first stored run is recognised as a run response,
  the \<^verbatim>\<open>runs\<close> list of the answer holds, in stored order, one entry for every stored
  run except those whose \<^verbatim>\<open>team_session_id\<close> equals the requested session
  identifier. Runs tagged with a different identifier and runs without a tag are shown.
\<close>

theorem get_team_session_runs:
  assumes "get_team_by_id tid (teams pg) = Some t" and "team_storage t = Some st"
    and "storage_read st sid uid = Some s" and "memory s = Some mem"
    and "map_of mem ''runs'' = Some (JList (first_run # rest))"
    and "is_run_response first_run = Inr True"
    and "get_team_session pg tid sid uid = Return (Dict d)"
  shows "\<exists>entries. map_of d ''runs'' = Some (JList entries) \<and>
           map entry_response entries =
             filter (\<lambda>run. run_team_session_id run \<noteq> JStr sid) (first_run # rest)"
proof -
  from assms obtain entries where
    loop: "team_runs_loop sid (first_run # rest) = Inr entries"
    and d: "d = (if entries = []
                 then AList.update ''runs'' (JList []) (session_to_dict s)
                 else AList.update ''runs'' (JList entries)
                        (AList.delete ''memory'' (session_to_dict s)))"
    by (auto simp: get_team_session_def dict_get_def split: sum.splits)
  have "map_of d ''runs'' = Some (JList entries)"
    by (simp add: d update_conv')
  with team_runs_loop_responses [OF loop] show ?thesis by blast
qed

text \<open>
  The theorem at the example team: of the three stored runs of session \<open>s1\<close>, the
  second and the third are shown.
\<close>

theorem get_team_session_runs_witness:
  "\<exists>entries.
     map_of
       [(''session_id'', JStr ''s1''), (''user_id'', JNull), (''entity_id'', JStr ''team-1''),
        (''session_data'', JNull), (''created_at'', JNull),
        (''runs'', JList
           [JDict [(''message'', JNull),
                   (''response'', JDict [(''content'', JStr ''b''), (''team_session_id'', JStr ''s2'')])],
            JDict [(''message'', JNull), (''response'', JDict [(''content'', JStr ''c'')])]])]
       ''runs'' = Some (JList entries) \<and>
     map entry_response entries =
       [JDict [(''content'', JStr ''b''), (''team_session_id'', JStr ''s2'')],
        JDict [(''content'', JStr ''c'')]]"
  using get_team_session_runs
    [where tid = "''team-1''" and pg = example_playground and t = example_team
       and st = "[example_team_session, empty_runs_session]" and sid = "''s1''" and uid = None
       and s = example_team_session
       and mem = "[(''runs'', JList
            [JDict [(''content'', JStr ''a''), (''team_session_id'', JStr ''s1'')],
             JDict [(''content'', JStr ''b''), (''team_session_id'', JStr ''s2'')],
             JDict [(''content'', JStr ''c'')]])]"
       and first_run = "JDict [(''content'', JStr ''a''), (''team_session_id'', JStr ''s1'')]"
       and rest = "[JDict [(''content'', JStr ''b''), (''team_session_id'', JStr ''s2'')],
                    JDict [(''content'', JStr ''c'')]]"
       and d = "[(''session_id'', JStr ''s1''), (''user_id'', JNull), (''entity_id'', JStr ''team-1''),
        (''session_data'', JNull), (''created_at'', JNull),
        (''runs'', JList
           [JDict [(''message'', JNull),
                   (''response'', JDict [(''content'', JStr ''b''), (''team_session_id'', JStr ''s2'')])],
            JDict [(''message'', JNull), (''response'', JDict [(''content'', JStr ''c'')])]])]"]
  by (simp add: get_team_session_def get_team_by_id_def storage_read_def is_run_response_def
        session_to_dict_def opt_str_def opt_dict_def dict_get_def dict_get_default_def
        run_team_session_id_def example_defs)

text \<open>
  Claim C4 as the spec states it fails at the example team: the run tagged with another
  session identifier (\<open>s2\<close>) is shown, and the run tagged with the session's own
  identifier (\<open>s1\<close>) is not.
\<close>

theorem get_team_session_counterexample:
  "get_team_session example_playground ''team-1'' ''s1'' None =
     Return (Dict
       [(''session_id'', JStr ''s1''), (''user_id'', JNull), (''entity_id'', JStr ''team-1''),
        (''session_data'', JNull), (''created_at'', JNull),
        (''runs'', JList
           [JDict [(''message'', JNull),
                   (''response'', JDict [(''content'', JStr ''b''), (''team_session_id'', JStr ''s2'')])],
            JDict [(''message'', JNull), (''response'', JDict [(''content'', JStr ''c'')])]])])"
  by (simp add: get_team_session_def get_team_by_id_def storage_read_def is_run_response_def
        session_to_dict_def opt_str_def opt_dict_def dict_get_def dict_get_default_def
        AList.delete_eq example_defs)

section \<open>An empty list of runs\<close>

text \<open>
  Claim C9. A stored session whose memory maps \<^verbatim>\<open>"runs"\<close> to an empty list makes
  \<^verbatim>\<open>get_agent_session\<close> raise \<^verbatim>\<open>IndexError\<close> at \<^verbatim>\<open>runs[0]\<close> instead of
  returning the session, and \<^verbatim>\<open>get_team_session\<close> does the same.
\<close>

theorem empty_runs_raise_IndexError:
  "(get_agent_by_id aid (agents pg) = Some a \<and> storage a = Some st \<and>
    storage_read st sid uid = Some s \<and> memory s = Some mem \<and>
    map_of mem ''runs'' = Some (JList [])
    \<longrightarrow> get_agent_session pg aid sid uid = Raise IndexError)
   \<and>
   (get_team_by_id tid (teams pg') = Some t \<and> team_storage t = Some st' \<and>
    storage_read st' sid' uid' = Some s' \<and> memory s' = Some mem' \<and>
    map_of mem' ''runs'' = Some (JList [])
    \<longrightarrow> get_team_session pg' tid sid' uid' = Raise IndexError)"
  by (simp add: get_agent_session_def get_team_session_def dict_get_def)

text \<open>The theorem at the example registry, whose session \<open>s0\<close> has no runs.\<close>

theorem empty_runs_raise_IndexError_witness:
  "get_agent_session example_playground ''agent-1'' ''s0'' None = Raise IndexError
   \<and> get_team_session example_playground ''team-1'' ''s0'' None = Raise IndexError"
  using empty_runs_raise_IndexError
    [where aid = "''agent-1''" and pg = example_playground and a = example_agent
       and st = "[empty_runs_session]" and sid = "''s0''" and uid = None
       and s = empty_runs_session and mem = "[(''runs'', JList [])]"
       and tid = "''team-1''" and pg' = example_playground and t = example_team
       and st' = "[example_team_session, empty_runs_session]" and sid' = "''s0''"
       and uid' = None and s' = empty_runs_session and mem' = "[(''runs'', JList [])]"]
  by (simp add: get_agent_by_id_def get_team_by_id_def storage_read_def example_defs)

section \<open>The two modes of an agent run\<close>









section \<open>Continuing a paused run\<close>




section \<open>New and continuing sessions\<close>






section \<open>How a workflow run is delivered\<close>






section \<open>What the handlers write to the registry\<close>









section \<open>A workflow of the first generation runs on a copy\<close>

text \<open>
  Claim C10. For a \<^verbatim>\<open>Workflow\<close> of the first generation, \<^verbatim>\<open>create_workflow_run\<close>
  runs a copy of the registered instance that holds the requested \<^verbatim>\<open>workflow_id\<close>,
  the request's \<^verbatim>\<open>session_id\<close> and \<^verbatim>\<open>user_id\<close> and no \<^verbatim>\<open>session_name\<close>;
  the registry, and with it the registered instance, is as before.
\<close>

theorem workflow_run_on_copy:
  "get_workflow_by_id wid (workflows pg) = Some w \<and> workflow_class w = Workflow
   \<longrightarrow> snd (create_workflow_run c pg wid body) = pg
     \<and> fst (create_workflow_run c pg wid body)
         = (if run_return_type w = Some ''RunResponse'' then returned_or_500 else streamed_or_500)
             (workflow_run c
                (w\<lparr>workflow_id := Some wid, workflow_session_id := body_session_id body,
                   workflow_user_id := body_user_id body, session_name := None\<rparr>)
                (body_input body))"
  by (simp add: create_workflow_run_def deep_copy_def)

text \<open>The theorem at the example \<^verbatim>\<open>Workflow\<close>.\<close>

theorem workflow_run_on_copy_witness:
  "snd (create_workflow_run example_collab example_playground ''wf-1''
          \<lparr>body_input = [], body_user_id = Some ''u1'', body_session_id = Some ''s7'',
           body_stream = False\<rparr>) = example_playground
   \<and> fst (create_workflow_run example_collab example_playground ''wf-1''
          \<lparr>body_input = [], body_user_id = Some ''u1'', body_session_id = Some ''s7'',
           body_stream = False\<rparr>)
     = returned_or_500
         (workflow_run example_collab
            (example_workflow\<lparr>workflow_id := Some ''wf-1'', workflow_session_id := Some ''s7'',
               workflow_user_id := Some ''u1'', session_name := None\<rparr>) [])"
  using workflow_run_on_copy
    [where wid = "''wf-1''" and pg = example_playground and w = example_workflow
       and c = example_collab
       and body = "\<lparr>body_input = [], body_user_id = Some ''u1'', body_session_id = Some ''s7'',
           body_stream = False\<rparr>"]
  by (simp add: get_workflow_by_id_def example_playground_def example_workflow_def)

section \<open>Renaming a session that is not stored\<close>

text \<open>
  The handlers for agents and teams list the stored sessions first; without a session of
  the identifier they answer 404 and the registry is as before.
\<close>

lemma rename_agent_session_not_found:
  "get_agent_by_id aid (agents pg) = Some agent \<Longrightarrow> storage agent = Some st \<Longrightarrow>
   find (\<lambda>s. session_id s = sid) (get_all_sessions st body_uid None) = None \<Longrightarrow>
   rename_agent_session pg aid sid new_name body_uid
     = (JSONResponse 404 (JStr ''Session not found.''), pg)"
  by (simp add: rename_agent_session_def)

lemma rename_team_session_not_found:
  "get_team_by_id tid (teams pg) = Some team \<Longrightarrow> team_storage team = Some st \<Longrightarrow>
   find (\<lambda>s. session_id s = sid) (get_all_sessions st body_uid (Some tid)) = None \<Longrightarrow>
   rename_team_session pg tid sid new_name body_uid
     = (Raise (HTTPException 404 ''Session not found''), pg)"
  by (simp add: rename_team_session_def)

lemma rename_agent_session_found:
  "get_agent_by_id aid (agents pg) = Some agent \<Longrightarrow> storage agent = Some st \<Longrightarrow>
   find (\<lambda>s. session_id s = sid) (get_all_sessions st body_uid None) = Some session \<Longrightarrow>
   rename_agent_session pg aid sid new_name body_uid
     = (JSONResponse 200
          (JDict [(''message'', JStr (''successfully renamed session '' @ session_id session))]),
        put_agent aid (agent_rename_session agent new_name sid) pg)"
  by (simp add: rename_agent_session_def)

lemma rename_team_session_found:
  "get_team_by_id tid (teams pg) = Some team \<Longrightarrow> team_storage team = Some st \<Longrightarrow>
   find (\<lambda>s. session_id s = sid) (get_all_sessions st body_uid (Some tid)) = Some session \<Longrightarrow>
   rename_team_session pg tid sid new_name body_uid
     = (JSONResponse 200
          (JDict [(''message'', JStr (''successfully renamed team session '' @ new_name))]),
        put_team tid (team_rename_session team new_name sid) pg)"
  by (simp add: rename_team_session_def)

text \<open>
  Claim C8 at the example \<^verbatim>\<open>Workflow\<close>, whose store holds no session at all:
  \<^verbatim>\<open>rename_workflow_session\<close> for the session \<open>no-such-session\<close> answers with
  status 200 and the success message, where the handlers for agents and teams answer 404.
  The store still holds no session afterwards.
\<close>

theorem rename_workflow_session_without_session:
  "workflow_storage example_workflow = Some []
   \<and> fst (rename_workflow_session example_playground ''wf-1'' ''no-such-session'' ''new name'')
       = JSONResponse 200 (JDict [(''message'', JStr ''successfully renamed workflow pipeline'')])
   \<and> map_option (map workflow_storage)
        (workflows (snd (rename_workflow_session example_playground ''wf-1'' ''no-such-session''
                           ''new name'')))
       = Some [Some [], None]"
  by (simp add: rename_workflow_session_def workflow_rename_session_def rename_session_def
        fstr_def get_workflow_by_id_def put_workflow_def example_playground_def
        example_workflow_def example_workflow_v2_def)

end
